theory Spec2Isabelle
  imports Complex_Main
begin

section \<open>Python primitives used by the coordinate parser\<close>

text \<open>
  Coordinate strings are ASCII text. The predicates below are Python's \<^verbatim>\<open>str.isalpha\<close>,
  \<^verbatim>\<open>str.isdigit\<close>, \<^verbatim>\<open>str.upper\<close>, \<^verbatim>\<open>str.strip\<close>, \<^verbatim>\<open>str.split(':')\<close> and
  \<^verbatim>\<open>int(str)\<close> restricted to ASCII characters; exceptions are values of type \<open>error\<close>.
\<close>

datatype error =
    ValueError | IndexError | KeyError | IndexingError | TypeError | OverflowError | ReError
  | AttributeError

definition ord :: "char \<Rightarrow> int" where
  "ord c = of_char c"

definition chr :: "int \<Rightarrow> char" where
  "chr n = char_of n"

definition char_isdigit :: "char \<Rightarrow> bool" where
  "char_isdigit c = (48 \<le> ord c \<and> ord c \<le> 57)"

definition char_isupper :: "char \<Rightarrow> bool" where
  "char_isupper c = (65 \<le> ord c \<and> ord c \<le> 90)"

definition char_islower :: "char \<Rightarrow> bool" where
  "char_islower c = (97 \<le> ord c \<and> ord c \<le> 122)"

definition char_isalpha :: "char \<Rightarrow> bool" where
  "char_isalpha c = (char_isupper c \<or> char_islower c)"

definition char_isspace :: "char \<Rightarrow> bool" where
  "char_isspace c = ((9 \<le> ord c \<and> ord c \<le> 13) \<or> (28 \<le> ord c \<and> ord c \<le> 32))"

definition char_upper :: "char \<Rightarrow> char" where
  "char_upper c = (if char_islower c then chr (ord c - 32) else c)"

definition str_isalpha :: "string \<Rightarrow> bool" where
  "str_isalpha s = (s \<noteq> [] \<and> list_all char_isalpha s)"

definition str_isdigit :: "string \<Rightarrow> bool" where
  "str_isdigit s = (s \<noteq> [] \<and> list_all char_isdigit s)"

definition str_upper :: "string \<Rightarrow> string" where
  "str_upper s = map char_upper s"

definition str_strip :: "string \<Rightarrow> string" where
  "str_strip s = rev (dropWhile char_isspace (rev (dropWhile char_isspace s)))"

fun str_split :: "char \<Rightarrow> string \<Rightarrow> string list" where
  "str_split sep [] = [[]]"
| "str_split sep (c # cs) =
     (if c = sep then [] # str_split sep cs
      else (case str_split sep cs of
              [] \<Rightarrow> [[c]]
            | p # ps \<Rightarrow> (c # p) # ps))"

text \<open>
  \<^verbatim>\<open>int(s)\<close> for a decimal literal: surrounding whitespace is dropped, one sign is allowed,
  and single underscores may separate digits. \<open>None\<close> stands for \<^verbatim>\<open>ValueError\<close>.
\<close>

fun digits_value :: "int \<Rightarrow> bool \<Rightarrow> string \<Rightarrow> int option" where
  "digits_value acc after_digit [] = (if after_digit then Some acc else None)"
| "digits_value acc after_digit (c # cs) =
     (if char_isdigit c then digits_value (acc * 10 + (ord c - 48)) True cs
      else if c = CHR ''_'' \<and> after_digit \<and> cs \<noteq> [] \<and> char_isdigit (hd cs)
        then digits_value acc False cs
      else None)"

definition py_int :: "string \<Rightarrow> int option" where
  "py_int s =
     (case str_strip s of
        [] \<Rightarrow> None
      | c # cs \<Rightarrow>
          if c = CHR ''-'' then map_option uminus (digits_value 0 False cs)
          else if c = CHR ''+'' then digits_value 0 False cs
          else digits_value 0 False (c # cs))"

section \<open>ExcelCoordinate (src/database/models.py)\<close>

record ExcelCoordinate =
  column :: string
  row :: int
  end_column :: string
  end_row :: int
  coord_type :: string

text \<open>The dataclass defaults: \<^verbatim>\<open>column="", row=0, end_column="", end_row=0, coord_type="single"\<close>.\<close>

definition coord_default :: ExcelCoordinate where
  "coord_default = \<lparr>column = '''', row = 0, end_column = '''', end_row = 0, coord_type = ''single''\<rparr>"

text \<open>
  \<^verbatim>\<open>_parse_single\<close>: the loop stops at the first digit; the text before it is the column
  part, the text from it on is the row part.
\<close>

definition split_at_first_digit :: "string \<Rightarrow> string \<times> string" where
  "split_at_first_digit coord_str =
     (if list_ex char_isdigit coord_str
      then (takeWhile (\<lambda>c. \<not> char_isdigit c) coord_str, dropWhile (\<lambda>c. \<not> char_isdigit c) coord_str)
      else ('''', ''''))"

definition parse_single :: "string \<Rightarrow> error + ExcelCoordinate" where
  "parse_single coord_str =
     (let (col_part, row_part) = split_at_first_digit coord_str in
      if col_part = [] \<or> row_part = [] then Inl ValueError
      else (case py_int row_part of
              None \<Rightarrow> Inl ValueError
            | Some r \<Rightarrow>
                if r < 1 then Inl ValueError
                else Inr (coord_default\<lparr>column := col_part, row := r, coord_type := ''single''\<rparr>)))"

text \<open>
  \<^verbatim>\<open>_parse_range\<close>: the unpacking of \<^verbatim>\<open>split(':')\<close> needs exactly two parts; every
  exception inside is re-raised as \<^verbatim>\<open>ValueError\<close>.
\<close>

definition parse_range :: "string \<Rightarrow> error + ExcelCoordinate" where
  "parse_range coord_str =
     (case str_split (CHR '':'') coord_str of
        [s, e] \<Rightarrow>
          (let start_str = str_strip s; end_str = str_strip e in
           if str_isalpha start_str \<and> str_isalpha end_str \<and> start_str = end_str
             then Inr (coord_default\<lparr>column := start_str, coord_type := ''column''\<rparr>)
           else if str_isdigit start_str \<and> str_isdigit end_str \<and> start_str = end_str
             then (case py_int start_str of
                     None \<Rightarrow> Inl ValueError
                   | Some r \<Rightarrow> Inr (coord_default\<lparr>row := r, coord_type := ''row''\<rparr>))
           else (case parse_single start_str of
                   Inl _ \<Rightarrow> Inl ValueError
                 | Inr start_coord \<Rightarrow>
                     (case parse_single end_str of
                        Inl _ \<Rightarrow> Inl ValueError
                      | Inr end_coord \<Rightarrow>
                          Inr \<lparr>column = column start_coord, row = row start_coord,
                               end_column = column end_coord, end_row = row end_coord,
                               coord_type = ''range''\<rparr>)))
      | _ \<Rightarrow> Inl ValueError)"

definition from_string :: "string \<Rightarrow> error + ExcelCoordinate" where
  "from_string s =
     (let coord_str = str_strip (str_upper s) in
      if CHR '':'' \<in> set coord_str then parse_range coord_str
      else if str_isalpha coord_str
        then Inr (coord_default\<lparr>column := coord_str, coord_type := ''column''\<rparr>)
      else if str_isdigit coord_str
        then (case py_int coord_str of
                None \<Rightarrow> Inl ValueError
              | Some r \<Rightarrow> Inr (coord_default\<lparr>row := r, coord_type := ''row''\<rparr>))
      else parse_single coord_str)"

text \<open>\<^verbatim>\<open>column_to_index\<close>: the loop over the characters is a left fold.\<close>

definition column_to_index :: "string \<Rightarrow> int" where
  "column_to_index col =
     foldl (\<lambda>result char. result * 26 + (ord char - ord (CHR ''A'') + 1)) 0 col - 1"

text \<open>\<^verbatim>\<open>index_to_column\<close>: the \<^verbatim>\<open>while index > 0\<close> loop, with the result built from the right.\<close>

function index_to_column_loop :: "int \<Rightarrow> string \<Rightarrow> string" where
  "index_to_column_loop index result =
     (if index > 0
      then index_to_column_loop ((index - 1) div 26)
             (chr ((index - 1) mod 26 + ord (CHR ''A'')) # result)
      else result)"
  by pat_completeness auto
termination
  by (relation "measure (\<lambda>(index, result). nat index)") auto

declare index_to_column_loop.simps [simp del]

definition index_to_column :: "int \<Rightarrow> string" where
  "index_to_column index = index_to_column_loop (index + 1) ''''"


section \<open>The standard loader's column labels (src/core/enhanced_excel_processor.py)\<close>

definition ascii_uppercase :: string where
  "ascii_uppercase = ''ABCDEFGHIJKLMNOPQRSTUVWXYZ''"

text \<open>Python's \<^verbatim>\<open>xs[i]\<close>: a negative index counts from the end, out of range raises.\<close>

definition py_index :: "'a list \<Rightarrow> int \<Rightarrow> error + 'a" where
  "py_index xs i =
     (let n = int (length xs); j = (if i < 0 then i + n else i)
      in if 0 \<le> j \<and> j < n then Inr (xs ! nat j) else Inl IndexError)"

text \<open>The body of the loop \<^verbatim>\<open>for i in range(max_cols)\<close> of \<^verbatim>\<open>_load_standard_excel\<close>.\<close>

definition standard_column_name :: "int \<Rightarrow> error + string" where
  "standard_column_name i =
     (if i < 26
      then (case py_index ascii_uppercase i of Inl e \<Rightarrow> Inl e | Inr c \<Rightarrow> Inr [c])
      else (case py_index ascii_uppercase ((i - 26) div 26) of
              Inl e \<Rightarrow> Inl e
            | Inr first \<Rightarrow>
                (case py_index ascii_uppercase (i mod 26) of
                   Inl e \<Rightarrow> Inl e
                 | Inr second \<Rightarrow> Inr [first, second])))"

fun collect :: "(error + 'a) list \<Rightarrow> error + 'a list" where
  "collect [] = Inr []"
| "collect (Inl e # rs) = Inl e"
| "collect (Inr x # rs) = (case collect rs of Inl e \<Rightarrow> Inl e | Inr xs \<Rightarrow> Inr (x # xs))"

text \<open>
  The names given to a non-empty sheet of \<open>max_cols\<close> columns: a slice of the alphabet up
  to 26 columns, the loop above beyond.
\<close>

definition standard_column_names :: "nat \<Rightarrow> error + string list" where
  "standard_column_names max_cols =
     (if max_cols \<le> 26 then Inr (map (\<lambda>c. [c]) (take max_cols ascii_uppercase))
      else collect (map (\<lambda>i. standard_column_name (int i)) [0..<max_cols]))"

text \<open>
  \<^verbatim>\<open>_clean_column_names\<close> on string labels. The names it makes up are Chinese
  literals in the source: five fixed names for the positions 0 to 4 of a placeholder
  label, and the word for column followed by the 1-based position elsewhere
  (\<open>ColumnN\<close>).
\<close>

datatype colname =
    Name string | DeviceNumber | PreviousReading | CurrentReading | Multiplier | OutputEnergy
  | ColumnN nat

definition str_startswith :: "string \<Rightarrow> string \<Rightarrow> bool" where
  "str_startswith s p = (take (length p) s = p)"

definition str_endswith :: "string \<Rightarrow> string \<Rightarrow> bool" where
  "str_endswith s p = (length p \<le> length s \<and> drop (length s - length p) s = p)"

definition positional_name :: "nat \<Rightarrow> colname" where
  "positional_name i =
     (if i = 0 then DeviceNumber
      else if i = 1 then PreviousReading
      else if i = 2 then CurrentReading
      else if i = 3 then Multiplier
      else if i = 4 then OutputEnergy
      else ColumnN (i + 1))"

definition clean_column_name :: "nat \<Rightarrow> string \<Rightarrow> colname" where
  "clean_column_name i col =
     (let col_str = str_strip col in
      if str_startswith col_str ''Unnamed'' \<or> col_str = ''nan'' then positional_name i
      else (let clean_name = str_strip (filter (\<lambda>c. c \<noteq> CHR 0x0A \<and> c \<noteq> CHR 0x0D) col_str)
            in if clean_name = [] then ColumnN (i + 1) else Name clean_name))"

definition clean_column_names :: "string list \<Rightarrow> colname list" where
  "clean_column_names cols = map (\<lambda>(i, col). clean_column_name i col) (enumerate 0 cols)"

text \<open>
  \<^verbatim>\<open>_load_standard_excel\<close>, as far as the column names of a non-empty sheet go: any
  exception is caught and the loader returns \<^verbatim>\<open>None\<close>.
\<close>

definition load_standard_excel_columns :: "nat \<Rightarrow> colname list option" where
  "load_standard_excel_columns max_cols =
     (case standard_column_names max_cols of
        Inl e \<Rightarrow> None
      | Inr cols \<Rightarrow> Some (clean_column_names cols))"

section \<open>Cell values and the library operations on them\<close>

text \<open>
  A cell of a table holds \<^verbatim>\<open>None\<close>, a string, an integer, a float or a boolean. A finite
  float is modelled by the rational number it denotes; \<open>FNaN\<close> is the missing value
  \<^verbatim>\<open>NaN\<close> that the spreadsheet reader puts into empty cells.
\<close>

datatype pyfloat = Finite rat | PosInf | NegInf | FNaN

datatype cell = PNone | PStr string | PInt int | PFloat pyfloat | PBool bool

text \<open>
  The operations of Python and pandas that depend on floating-point rounding or on the
  regular-expression engine are parameters of the model:
  \<^item> \<open>float_of_str\<close> is \<^verbatim>\<open>float(s)\<close> on a string (\<open>None\<close>: \<^verbatim>\<open>ValueError\<close>);
  \<^item> \<open>float_of_int\<close> is \<^verbatim>\<open>float(i)\<close> on an integer (\<open>None\<close>: \<^verbatim>\<open>OverflowError\<close>);
  \<^item> \<open>str_of_float\<close> is \<^verbatim>\<open>str(x)\<close> on a finite float;
  \<^item> \<open>numeric_of_str\<close> is \<^verbatim>\<open>pd.to_numeric\<close> on a string cell (\<open>None\<close>: not a number);
  \<^item> \<open>re_valid\<close> says that a pattern compiles, \<open>re_search\<close> that it matches somewhere
    in a string.
  Every theorem below holds for all of them.
\<close>

record pylib =
  float_of_str :: "string \<Rightarrow> pyfloat option"
  float_of_int :: "int \<Rightarrow> pyfloat option"
  str_of_float :: "rat \<Rightarrow> string"
  numeric_of_str :: "string \<Rightarrow> pyfloat option"
  re_valid :: "string \<Rightarrow> bool"
  re_search :: "string \<Rightarrow> string \<Rightarrow> bool"

text \<open>\<^verbatim>\<open>pd.isna\<close> on a scalar.\<close>

definition isna :: "cell \<Rightarrow> bool" where
  "isna x = (x = PNone \<or> x = PFloat FNaN)"

text \<open>\<^verbatim>\<open>str(i)\<close> on an integer.\<close>

fun nat_digits :: "nat \<Rightarrow> string" where
  "nat_digits n =
     (if n < 10 then [chr (48 + int n)]
      else nat_digits (n div 10) @ [chr (48 + int (n mod 10))])"

declare nat_digits.simps [simp del]

definition str_of_int :: "int \<Rightarrow> string" where
  "str_of_int i = (if i < 0 then CHR ''-'' # nat_digits (nat (- i)) else nat_digits (nat i))"

text \<open>
  \<^verbatim>\<open>str(x)\<close>, which is also what \<^verbatim>\<open>Series.astype(str)\<close> puts in place of each cell: a
  missing value becomes the text \<^verbatim>\<open>nan\<close> or \<^verbatim>\<open>None\<close> (pandas 1.5 to 2.x, the versions
  the package asks for).
\<close>

fun py_str :: "pylib \<Rightarrow> cell \<Rightarrow> string" where
  "py_str L PNone = ''None''"
| "py_str L (PStr s) = s"
| "py_str L (PInt i) = str_of_int i"
| "py_str L (PFloat (Finite r)) = str_of_float L r"
| "py_str L (PFloat PosInf) = ''inf''"
| "py_str L (PFloat NegInf) = ''-inf''"
| "py_str L (PFloat FNaN) = ''nan''"
| "py_str L (PBool b) = (if b then ''True'' else ''False'')"

text \<open>
  Python's \<^verbatim>\<open>==\<close> on two scalars. Integers, booleans and floats compare by their exact
  numeric value, with \<^verbatim>\<open>True\<close> as 1; \<^verbatim>\<open>NaN\<close> equals nothing; a string equals only an
  equal string.
\<close>

fun num_value :: "cell \<Rightarrow> pyfloat option" where
  "num_value (PInt i) = Some (Finite (of_int i))"
| "num_value (PBool b) = Some (Finite (if b then 1 else 0))"
| "num_value (PFloat f) = Some f"
| "num_value PNone = None"
| "num_value (PStr s) = None"

definition float_eq :: "pyfloat \<Rightarrow> pyfloat \<Rightarrow> bool" where
  "float_eq a b = (a \<noteq> FNaN \<and> a = b)"

fun float_less :: "pyfloat \<Rightarrow> pyfloat \<Rightarrow> bool" where
  "float_less FNaN b = False"
| "float_less a FNaN = False"
| "float_less PosInf b = False"
| "float_less a NegInf = False"
| "float_less NegInf b = True"
| "float_less a PosInf = True"
| "float_less (Finite r) (Finite s) = (r < s)"

definition float_le :: "pyfloat \<Rightarrow> pyfloat \<Rightarrow> bool" where
  "float_le a b = (float_less a b \<or> float_eq a b)"

fun py_eq :: "cell \<Rightarrow> cell \<Rightarrow> bool" where
  "py_eq (PStr s) (PStr t) = (s = t)"
| "py_eq PNone PNone = True"
| "py_eq a b =
     (case num_value a of
        None \<Rightarrow> False
      | Some x \<Rightarrow> (case num_value b of None \<Rightarrow> False | Some y \<Rightarrow> float_eq x y))"

text \<open>
  The comparison of one cell of an object column with a scalar, as
  \<^verbatim>\<open>Series == value\<close> and \<^verbatim>\<open>Series != value\<close> do it: a missing value on either side
  is never equal and always unequal.
\<close>

definition cell_eq :: "cell \<Rightarrow> cell \<Rightarrow> bool" where
  "cell_eq x v = (if isna x \<or> isna v then False else py_eq x v)"

definition cell_ne :: "cell \<Rightarrow> cell \<Rightarrow> bool" where
  "cell_ne x v = (if isna x \<or> isna v then True else \<not> py_eq x v)"

text \<open>\<^verbatim>\<open>float(value)\<close> on a scalar.\<close>

fun py_float :: "pylib \<Rightarrow> cell \<Rightarrow> error + pyfloat" where
  "py_float L (PStr s) = (case float_of_str L s of None \<Rightarrow> Inl ValueError | Some f \<Rightarrow> Inr f)"
| "py_float L (PInt i) = (case float_of_int L i of None \<Rightarrow> Inl OverflowError | Some f \<Rightarrow> Inr f)"
| "py_float L (PBool b) = Inr (Finite (if b then 1 else 0))"
| "py_float L (PFloat f) = Inr f"
| "py_float L PNone = Inl TypeError"

text \<open>\<^verbatim>\<open>pd.to_numeric(column, errors='coerce')\<close> on one cell.\<close>

fun to_numeric :: "pylib \<Rightarrow> cell \<Rightarrow> pyfloat" where
  "to_numeric L (PStr s) = (case numeric_of_str L s of None \<Rightarrow> FNaN | Some f \<Rightarrow> f)"
| "to_numeric L (PInt i) = (case float_of_int L i of None \<Rightarrow> FNaN | Some f \<Rightarrow> f)"
| "to_numeric L (PBool b) = Finite (if b then 1 else 0)"
| "to_numeric L (PFloat f) = f"
| "to_numeric L PNone = FNaN"

section \<open>Series\<close>

text \<open>
  A pandas Series is the list of its (row label, value) pairs. The tables have the default
  row labels 0, 1, 2, ...; a slice of a column keeps the labels of the rows it holds.
\<close>

type_synonym 'a series = "(nat \<times> 'a) list"

definition series_of :: "'a list \<Rightarrow> 'a series" where
  "series_of xs = enumerate 0 xs"

definition series_map :: "('a \<Rightarrow> 'b) \<Rightarrow> 'a series \<Rightarrow> 'b series" where
  "series_map f s = map (\<lambda>(l, x). (l, f x)) s"

definition series_any :: "bool series \<Rightarrow> bool" where
  "series_any m = list_ex snd m"

text \<open>\<^verbatim>\<open>a | b\<close> on two masks over the same rows.\<close>

definition series_or :: "bool series \<Rightarrow> bool series \<Rightarrow> bool series" where
  "series_or a b = map (\<lambda>((l, x), (k, y)). (l, x \<or> y)) (zip a b)"

text \<open>Python's \<^verbatim>\<open>xs[a:b]\<close>, which is \<^verbatim>\<open>Series.iloc[a:b]\<close> on the list of pairs.\<close>

definition slice_bound :: "nat \<Rightarrow> int \<Rightarrow> nat" where
  "slice_bound n i = (if i < 0 then nat (max (i + int n) 0) else min (nat i) n)"

definition py_slice :: "int \<Rightarrow> int \<Rightarrow> 'a list \<Rightarrow> 'a list" where
  "py_slice a b xs =
     (let lo = slice_bound (length xs) a; hi = slice_bound (length xs) b
      in take (hi - lo) (drop lo xs))"

text \<open>
  \<^verbatim>\<open>series[mask]\<close> with a boolean Series as the key: the mask is aligned to the labels of
  the series; a label of the series that the mask lacks raises \<^verbatim>\<open>IndexingError\<close>.
\<close>

definition bool_index :: "'a series \<Rightarrow> bool series \<Rightarrow> error + 'a series" where
  "bool_index s key =
     (if list_all (\<lambda>(l, x). l \<in> set (map fst key)) s
      then Inr (filter (\<lambda>(l, x). map_of key l = Some True) s)
      else Inl IndexingError)"

section \<open>The match operator evaluator (src/core/data_mapping_engine.py)\<close>

datatype FilterOperator =
    EQUALS | NOT_EQUALS | GREATER_THAN | GREATER_EQUAL | LESS_THAN | LESS_EQUAL
  | CONTAINS | NOT_CONTAINS | STARTS_WITH | ENDS_WITH | IS_EMPTY | IS_NOT_EMPTY

text \<open>
  The list \<^verbatim>\<open>type_converted_matches\<close> of the \<^verbatim>\<open>EQUALS\<close> branch: for a string value the
  masks of the comparisons with its integer and its float reading (each when the
  conversion succeeds), for a number (booleans are integers in Python) the mask of the
  comparison of the column's text with the number's text.
\<close>

definition type_converted_matches :: "pylib \<Rightarrow> cell series \<Rightarrow> cell \<Rightarrow> bool series list" where
  "type_converted_matches L col v =
     (case v of
        PStr s \<Rightarrow>
          (case py_int s of
             None \<Rightarrow> []
           | Some int_value \<Rightarrow> [series_map (\<lambda>x. cell_eq x (PInt int_value)) col])
          @ (case float_of_str L s of
               None \<Rightarrow> []
             | Some float_value \<Rightarrow> [series_map (\<lambda>x. cell_eq x (PFloat float_value)) col])
      | PNone \<Rightarrow> []
      | _ \<Rightarrow> [series_map (\<lambda>x. py_str L x = py_str L v) col])"

definition equals_mask :: "pylib \<Rightarrow> cell series \<Rightarrow> cell \<Rightarrow> bool series" where
  "equals_mask L col v =
     (let direct_match = series_map (\<lambda>x. cell_eq x v) col in
      if \<not> series_any direct_match
      then (let converted = type_converted_matches L col v in
            if converted \<noteq> [] then foldl series_or direct_match converted
            else direct_match)
      else direct_match)"

text \<open>The body of the \<^verbatim>\<open>try\<close> block of \<^verbatim>\<open>_apply_match_operator\<close>.\<close>

definition match_operator_try ::
  "pylib \<Rightarrow> cell series \<Rightarrow> cell \<Rightarrow> FilterOperator \<Rightarrow> error + bool series" where
  "match_operator_try L col v operator =
     (case operator of
        EQUALS \<Rightarrow> Inr (equals_mask L col v)
      | NOT_EQUALS \<Rightarrow> Inr (series_map (\<lambda>x. cell_ne x v) col)
      | CONTAINS \<Rightarrow>
          if re_valid L (py_str L v)
          then Inr (series_map (\<lambda>x. re_search L (py_str L v) (py_str L x)) col)
          else Inl ReError
      | NOT_CONTAINS \<Rightarrow>
          if re_valid L (py_str L v)
          then Inr (series_map (\<lambda>x. \<not> re_search L (py_str L v) (py_str L x)) col)
          else Inl ReError
      | STARTS_WITH \<Rightarrow> Inr (series_map (\<lambda>x. str_startswith (py_str L x) (py_str L v)) col)
      | ENDS_WITH \<Rightarrow> Inr (series_map (\<lambda>x. str_endswith (py_str L x) (py_str L v)) col)
      | GREATER_THAN \<Rightarrow>
          (case py_float L v of
             Inl e \<Rightarrow> Inl e
           | Inr f \<Rightarrow> Inr (series_map (\<lambda>x. float_less f (to_numeric L x)) col))
      | GREATER_EQUAL \<Rightarrow>
          (case py_float L v of
             Inl e \<Rightarrow> Inl e
           | Inr f \<Rightarrow> Inr (series_map (\<lambda>x. float_le f (to_numeric L x)) col))
      | LESS_THAN \<Rightarrow>
          (case py_float L v of
             Inl e \<Rightarrow> Inl e
           | Inr f \<Rightarrow> Inr (series_map (\<lambda>x. float_less (to_numeric L x) f) col))
      | LESS_EQUAL \<Rightarrow>
          (case py_float L v of
             Inl e \<Rightarrow> Inl e
           | Inr f \<Rightarrow> Inr (series_map (\<lambda>x. float_le (to_numeric L x) f) col))
      | IS_EMPTY \<Rightarrow> Inr (series_map (\<lambda>x. isna x \<or> str_strip (py_str L x) = []) col)
      | IS_NOT_EMPTY \<Rightarrow> Inr (series_map (\<lambda>x. \<not> (isna x \<or> str_strip (py_str L x) = [])) col))"

text \<open>
  \<^verbatim>\<open>_apply_match_operator\<close>: any exception of the body gives the all-false mask
  \<^verbatim>\<open>pd.Series([False] * len(column))\<close>, whose labels start again at 0.
\<close>

definition apply_match_operator ::
  "pylib \<Rightarrow> cell series \<Rightarrow> cell \<Rightarrow> FilterOperator \<Rightarrow> bool series" where
  "apply_match_operator L col v operator =
     (case match_operator_try L col v operator of
        Inl e \<Rightarrow> series_of (replicate (length col) False)
      | Inr m \<Rightarrow> m)"

section \<open>Tables and the object store\<close>

text \<open>
  A DataFrame is the list of its columns, each the list of its cells, with the default
  row labels; coordinates address columns by position. DataFrames are mutable objects:
  the store maps an address to the frame that lives there, and a table set
  (\<^verbatim>\<open>Dict[str, DataFrame]\<close>) maps a file name to the address of its frame.
  \<^verbatim>\<open>dict.copy()\<close> is the identity on such maps.
\<close>

type_synonym frame = "cell list list"

record store =
  objs :: "nat \<Rightarrow> frame"
  next_free :: nat

type_synonym tables = "string \<rightharpoonup> nat"

text \<open>\<^verbatim>\<open>DataFrame.copy()\<close>: a new object with the same content.\<close>

definition frame_copy :: "nat \<Rightarrow> store \<Rightarrow> nat \<times> store" where
  "frame_copy a h =
     (next_free h, h\<lparr>objs := (objs h)(next_free h := objs h a), next_free := Suc (next_free h)\<rparr>)"

text \<open>
  Positional access. A column position may be negative and then counts from the last
  column; a position outside the frame raises \<^verbatim>\<open>IndexError\<close>.
\<close>

definition column_position :: "frame \<Rightarrow> int \<Rightarrow> error + nat" where
  "column_position df j =
     (let n = int (length df); k = (if j < 0 then j + n else j)
      in if 0 \<le> k \<and> k < n then Inr (nat k) else Inl IndexError)"

definition iloc_column :: "frame \<Rightarrow> int \<Rightarrow> error + cell series" where
  "iloc_column df j =
     (case column_position df j of Inl e \<Rightarrow> Inl e | Inr k \<Rightarrow> Inr (series_of (df ! k)))"

definition iloc_get :: "frame \<Rightarrow> nat \<Rightarrow> int \<Rightarrow> error + cell" where
  "iloc_get df pos j =
     (case column_position df j of
        Inl e \<Rightarrow> Inl e
      | Inr k \<Rightarrow> if pos < length (df ! k) then Inr (df ! k ! pos) else Inl IndexError)"

definition iloc_set :: "frame \<Rightarrow> nat \<Rightarrow> int \<Rightarrow> cell \<Rightarrow> error + frame" where
  "iloc_set df pos j v =
     (case column_position df j of
        Inl e \<Rightarrow> Inl e
      | Inr k \<Rightarrow>
          if pos < length (df ! k) then Inr (df[k := (df ! k)[pos := v]]) else Inl IndexError)"

section \<open>The mapping engine (src/core/data_mapping_engine.py)\<close>

text \<open>
  The mapping rule \<^verbatim>\<open>DataMapping\<close>, with the fields that the dataclass in
  src/database/models.py declares; its identifier, name, description and time stamps take
  no part in the computation and are left out.
\<close>

record DataMapping =
  source_file :: string
  source_match_coordinate :: ExcelCoordinate
  source_match_value :: cell
  source_value_coordinate :: ExcelCoordinate
  target_file :: string
  target_match_coordinate :: ExcelCoordinate
  target_match_value :: cell
  target_insert_coordinate :: ExcelCoordinate
  match_operator :: FilterOperator
  overwrite_existing :: bool

text \<open>
  The engine reads two further attributes of the rule,
  \<^verbatim>\<open>mapping.source_match_row_range\<close> and \<^verbatim>\<open>mapping.target_match_row_range\<close>. The
  dataclass declares neither, it has no \<^verbatim>\<open>__getattr__\<close>, and nothing in the repository
  sets them: each read raises \<^verbatim>\<open>AttributeError\<close>. The code that follows the read
  expects \<^verbatim>\<open>None\<close> or a pair of a start and an end row.
\<close>

definition source_match_row_range :: "DataMapping \<Rightarrow> error + (int \<times> int) option" where
  "source_match_row_range mapping = Inl AttributeError"

definition target_match_row_range :: "DataMapping \<Rightarrow> error + (int \<times> int) option" where
  "target_match_row_range mapping = Inl AttributeError"

definition get_column_index :: "ExcelCoordinate \<Rightarrow> frame \<Rightarrow> error + int" where
  "get_column_index coordinate df =
     (if coord_type coordinate = ''column'' then Inr (column_to_index (column coordinate))
      else if coord_type coordinate = ''single'' then Inr (column_to_index (column coordinate))
      else Inl ValueError)"

text \<open>\<^verbatim>\<open>column.iloc[start-1:end]\<close> when the rule has a row range.\<close>

definition row_window :: "(int \<times> int) option \<Rightarrow> 'a series \<Rightarrow> 'a series" where
  "row_window row_range s =
     (case row_range of None \<Rightarrow> s | Some (start, end) \<Rightarrow> py_slice (start - 1) end s)"

text \<open>
  The three phases. Calls of the logger are left out: they read what the phase has
  already read and change nothing. The extract and the locate phase read the row range
  of the rule after they have read their columns.
\<close>

definition extract_source_values ::
  "pylib \<Rightarrow> DataMapping \<Rightarrow> tables \<Rightarrow> store \<Rightarrow> error + cell list" where
  "extract_source_values L mapping source_data h =
     (case source_data (source_file mapping) of
        None \<Rightarrow> Inl ValueError
      | Some a \<Rightarrow>
          (let df = objs h a in
           case get_column_index (source_match_coordinate mapping) df of
             Inl e \<Rightarrow> Inl e
           | Inr match_col_index \<Rightarrow>
           (case get_column_index (source_value_coordinate mapping) df of
             Inl e \<Rightarrow> Inl e
           | Inr value_col_index \<Rightarrow>
               if match_col_index \<ge> int (length df) \<or> value_col_index \<ge> int (length df)
               then Inl ValueError
               else (case iloc_column df match_col_index of
                 Inl e \<Rightarrow> Inl e
               | Inr match_column \<Rightarrow>
               (case iloc_column df value_col_index of
                 Inl e \<Rightarrow> Inl e
               | Inr value_column \<Rightarrow>
               (case source_match_row_range mapping of
                 Inl e \<Rightarrow> Inl e
               | Inr row_range \<Rightarrow>
                   (let match_window = row_window row_range match_column;
                        value_window = row_window row_range value_column;
                        matched_rows = apply_match_operator L match_window
                                         (source_match_value mapping) (match_operator mapping)
                    in case bool_index value_window matched_rows of
                         Inl e \<Rightarrow> Inl e
                       | Inr selected \<Rightarrow> Inr (filter (\<lambda>x. \<not> isna x) (map snd selected)))))))))"

definition find_target_positions ::
  "pylib \<Rightarrow> DataMapping \<Rightarrow> tables \<Rightarrow> store \<Rightarrow> error + nat list" where
  "find_target_positions L mapping target_data h =
     (case target_data (target_file mapping) of
        None \<Rightarrow> Inl ValueError
      | Some a \<Rightarrow>
          (let df = objs h a in
           case get_column_index (target_match_coordinate mapping) df of
             Inl e \<Rightarrow> Inl e
           | Inr match_col_index \<Rightarrow>
               if match_col_index \<ge> int (length df) then Inl ValueError
               else (case iloc_column df match_col_index of
                 Inl e \<Rightarrow> Inl e
               | Inr match_column \<Rightarrow>
               (case target_match_row_range mapping of
                 Inl e \<Rightarrow> Inl e
               | Inr row_range \<Rightarrow>
                   (let match_window = row_window row_range match_column;
                        matched_rows = apply_match_operator L match_window
                                         (target_match_value mapping) (match_operator mapping)
                    in Inr (map fst (filter snd matched_rows)))))))"

text \<open>
  The loop of \<^verbatim>\<open>_insert_values\<close> over \<^verbatim>\<open>enumerate(target_positions)\<close>, on the frame
  \<^verbatim>\<open>df\<close>; \<open>i\<close> is the running index, the last argument the count of written cells.
\<close>

fun insert_loop ::
  "bool \<Rightarrow> cell list \<Rightarrow> int \<Rightarrow> nat \<Rightarrow> nat list \<Rightarrow> frame \<Rightarrow> nat \<Rightarrow> (error + nat) \<times> frame" where
  "insert_loop overwrite source_values insert_col_index i [] df insert_count =
     (Inr insert_count, df)"
| "insert_loop overwrite source_values insert_col_index i (pos # rest) df insert_count =
     (if i < length source_values
      then (case iloc_get df pos insert_col_index of
              Inl e \<Rightarrow> (Inl e, df)
            | Inr old_value \<Rightarrow>
                if overwrite \<or> isna old_value
                then (case iloc_set df pos insert_col_index (source_values ! i) of
                        Inl e \<Rightarrow> (Inl e, df)
                      | Inr df' \<Rightarrow>
                          insert_loop overwrite source_values insert_col_index (Suc i) rest df'
                            (Suc insert_count))
                else insert_loop overwrite source_values insert_col_index (Suc i) rest df
                       insert_count)
      else if source_values \<noteq> []
      then (case iloc_get df pos insert_col_index of
              Inl e \<Rightarrow> (Inl e, df)
            | Inr old_value \<Rightarrow>
                if overwrite \<or> isna old_value
                then (case iloc_set df pos insert_col_index (last source_values) of
                        Inl e \<Rightarrow> (Inl e, df)
                      | Inr df' \<Rightarrow>
                          insert_loop overwrite source_values insert_col_index (Suc i) rest df'
                            (Suc insert_count))
                else insert_loop overwrite source_values insert_col_index (Suc i) rest df
                       insert_count)
      else insert_loop overwrite source_values insert_col_index (Suc i) rest df insert_count)"

declare insert_loop.simps [simp del]

text \<open>
  \<^verbatim>\<open>_insert_values\<close>: the frame of the target file is copied, the copy is written to, and
  the returned table set holds the copy. The store is returned in every case, so that
  what an exception leaves behind is part of the result.
\<close>

definition insert_values ::
  "DataMapping \<Rightarrow> tables \<Rightarrow> cell list \<Rightarrow> nat list \<Rightarrow> store \<Rightarrow> (error + tables) \<times> store" where
  "insert_values mapping target_data source_values target_positions h =
     (case target_data (target_file mapping) of
        None \<Rightarrow> (Inl KeyError, h)
      | Some a \<Rightarrow>
          (let (a', h1) = frame_copy a h; df = objs h1 a' in
           case get_column_index (target_insert_coordinate mapping) df of
             Inl e \<Rightarrow> (Inl e, h1)
           | Inr insert_col_index \<Rightarrow>
               if insert_col_index \<ge> int (length df) then (Inl ValueError, h1)
               else (case iloc_column df insert_col_index of
                 Inl e \<Rightarrow> (Inl e, h1)
               | Inr insert_column \<Rightarrow>
                   (let (r, df') = insert_loop (overwrite_existing mapping) source_values
                                     insert_col_index 0 target_positions df 0;
                        h2 = h1\<lparr>objs := (objs h1)(a' := df')\<rparr>
                    in case r of
                         Inl e \<Rightarrow> (Inl e, h2)
                       | Inr insert_count \<Rightarrow> (Inr (target_data(target_file mapping \<mapsto> a')), h2)))))"

text \<open>
  The report that \<^verbatim>\<open>execute_mapping\<close> logs when no target position was found: it
  resolves the match column again and reads it.
\<close>

definition no_position_report :: "DataMapping \<Rightarrow> tables \<Rightarrow> store \<Rightarrow> error + unit" where
  "no_position_report mapping target_data h =
     (case target_data (target_file mapping) of
        None \<Rightarrow> Inr ()
      | Some a \<Rightarrow>
          (let df = objs h a in
           case get_column_index (target_match_coordinate mapping) df of
             Inl e \<Rightarrow> Inl e
           | Inr match_col_index \<Rightarrow>
               if match_col_index < int (length df)
               then (case iloc_column df match_col_index of
                       Inl e \<Rightarrow> Inl e
                     | Inr col \<Rightarrow> Inr ())
               else Inr ()))"

definition execute_mapping ::
  "pylib \<Rightarrow> DataMapping \<Rightarrow> tables \<Rightarrow> tables \<Rightarrow> store \<Rightarrow> (error + tables) \<times> store" where
  "execute_mapping L mapping source_data target_data h =
     (case extract_source_values L mapping source_data h of
        Inl e \<Rightarrow> (Inl e, h)
      | Inr source_values \<Rightarrow>
          if source_values = [] then (Inr target_data, h)
          else (case find_target_positions L mapping target_data h of
                  Inl e \<Rightarrow> (Inl e, h)
                | Inr target_positions \<Rightarrow>
                    if target_positions = []
                    then (case no_position_report mapping target_data h of
                            Inl e \<Rightarrow> (Inl e, h)
                          | Inr u \<Rightarrow> (Inr target_data, h))
                    else insert_values mapping target_data source_values target_positions h))"

text \<open>
  \<^verbatim>\<open>execute_multiple_mappings\<close>: a rule that raises is skipped and
  \<^verbatim>\<open>current_target_data\<close> keeps its value.
\<close>

fun execute_multiple_mappings ::
  "pylib \<Rightarrow> DataMapping list \<Rightarrow> tables \<Rightarrow> tables \<Rightarrow> store \<Rightarrow> tables \<times> store" where
  "execute_multiple_mappings L [] source_data current_target_data h = (current_target_data, h)"
| "execute_multiple_mappings L (mapping # mappings) source_data current_target_data h =
     (case execute_mapping L mapping source_data current_target_data h of
        (Inr updated, h') \<Rightarrow> execute_multiple_mappings L mappings source_data updated h'
      | (Inl e, h') \<Rightarrow> execute_multiple_mappings L mappings source_data current_target_data h')"

text \<open>\<^verbatim>\<open>validate_mapping\<close>; the messages of the source are the constructors below.\<close>

datatype validation_error =
    SourceFileMissing | SourceMatchOutOfRange | SourceValueOutOfRange | SourceColumnError
  | TargetFileMissing | TargetMatchOutOfRange | TargetInsertOutOfRange | TargetColumnError

definition validate_mapping :: "DataMapping \<Rightarrow> tables \<Rightarrow> tables \<Rightarrow> store \<Rightarrow> validation_error list" where
  "validate_mapping mapping source_data target_data h =
     (case source_data (source_file mapping) of
        None \<Rightarrow> [SourceFileMissing]
      | Some a \<Rightarrow>
          (let df = objs h a in
           case get_column_index (source_match_coordinate mapping) df of
             Inl e \<Rightarrow> [SourceColumnError]
           | Inr match_col_index \<Rightarrow>
           (case get_column_index (source_value_coordinate mapping) df of
             Inl e \<Rightarrow> [SourceColumnError]
           | Inr value_col_index \<Rightarrow>
               (if match_col_index \<ge> int (length df) then [SourceMatchOutOfRange] else [])
               @ (if value_col_index \<ge> int (length df) then [SourceValueOutOfRange] else []))))
     @
     (case target_data (target_file mapping) of
        None \<Rightarrow> [TargetFileMissing]
      | Some a \<Rightarrow>
          (let df = objs h a in
           case get_column_index (target_match_coordinate mapping) df of
             Inl e \<Rightarrow> [TargetColumnError]
           | Inr match_col_index \<Rightarrow>
           (case get_column_index (target_insert_coordinate mapping) df of
             Inl e \<Rightarrow> [TargetColumnError]
           | Inr insert_col_index \<Rightarrow>
               (if match_col_index \<ge> int (length df) then [TargetMatchOutOfRange] else [])
               @ (if insert_col_index \<ge> int (length df) then [TargetInsertOutOfRange] else []))))"

section \<open>Auxiliary definitions for the statements and their examples\<close>

text \<open>The value of a column string as a base-26 numeral with the digits A = 1 to Z = 26.\<close>

definition letters_value :: "int \<Rightarrow> string \<Rightarrow> int" where
  "letters_value acc s = foldl (\<lambda>result char. result * 26 + (ord char - ord (CHR ''A'') + 1)) acc s"

text \<open>
  The value that the insert loop uses for the \<open>i\<close>-th target position when there is at
  least one source value: the \<open>i\<close>-th source value if there is one, else the last.
\<close>

definition pick_value :: "cell list \<Rightarrow> nat \<Rightarrow> cell" where
  "pick_value source_values i =
     (if i < length source_values then source_values ! i else last source_values)"

text \<open>
  The tables of the end-to-end example: a source table whose column B holds the keys and
  whose column C holds the values, and a target table whose column A holds the keys and
  whose column D is written to. The source frame lives at address 0, the target frame at
  address 1.
\<close>

definition column_coordinate :: "string \<Rightarrow> ExcelCoordinate" where
  "column_coordinate s = coord_default\<lparr>column := s, coord_type := ''column''\<rparr>"

definition example_source :: frame where
  "example_source =
     [[PFloat FNaN, PFloat FNaN, PFloat FNaN, PFloat FNaN],
      [PStr ''201 main'', PStr ''202 main'', PStr ''202 main'', PStr ''203 main''],
      [PInt 10, PInt 20, PInt 30, PInt 40]]"

definition example_target :: frame where
  "example_target =
     [[PStr ''201 main'', PStr ''202 main'', PStr ''202 main''],
      [PFloat FNaN, PFloat FNaN, PFloat FNaN],
      [PFloat FNaN, PFloat FNaN, PFloat FNaN],
      [PFloat FNaN, PInt 99, PFloat FNaN]]"

definition example_store :: store where
  "example_store =
     \<lparr>objs = (\<lambda>a. if a = 0 then example_source else if a = 1 then example_target else []),
      next_free = 2\<rparr>"

definition example_sources :: tables where
  "example_sources = [''source'' \<mapsto> 0]"

definition example_targets :: tables where
  "example_targets = [''target'' \<mapsto> 1]"

definition example_mapping :: DataMapping where
  "example_mapping =
     \<lparr>source_file = ''source'',
      source_match_coordinate = column_coordinate ''B'',
      source_match_value = PStr ''202 main'',
      source_value_coordinate = column_coordinate ''C'',
      target_file = ''target'',
      target_match_coordinate = column_coordinate ''A'',
      target_match_value = PStr ''202 main'',
      target_insert_coordinate = column_coordinate ''D'',
      match_operator = EQUALS,
      overwrite_existing = False\<rparr>"

text \<open>The coordinate that names the last column of a frame by its letters.\<close>

definition last_column_coordinate :: "frame \<Rightarrow> ExcelCoordinate" where
  "last_column_coordinate df = column_coordinate (index_to_column (int (length df) - 1))"

section \<open>Coordinate: column letters and indices\<close>

lemma column_to_index_letters_value: "column_to_index s = letters_value 0 s - 1"
  by (simp add: column_to_index_def letters_value_def)

lemma letters_value_Nil: "letters_value acc [] = acc"
  by (simp add: letters_value_def)

lemma letters_value_Cons:
  "letters_value acc (c # s) = letters_value (acc * 26 + (ord c - 64)) s"
  by (simp add: letters_value_def ord_def)

lemma letters_value_snoc:
  "letters_value acc (s @ [c]) = letters_value acc s * 26 + (ord c - 64)"
  by (simp add: letters_value_def ord_def)

lemma letters_value_acc:
  "letters_value acc s = acc * 26 ^ length s + letters_value 0 s"
proof (induction s arbitrary: acc)
  case Nil
  show ?case by (simp add: letters_value_Nil)
next
  case (Cons c s)
  have "letters_value acc (c # s) = (acc * 26 + (ord c - 64)) * 26 ^ length s + letters_value 0 s"
    using Cons.IH [of "acc * 26 + (ord c - 64)"] by (simp add: letters_value_Cons)
  moreover have "letters_value 0 (c # s) = (ord c - 64) * 26 ^ length s + letters_value 0 s"
    using Cons.IH [of "ord c - 64"] by (simp add: letters_value_Cons)
  ultimately show ?case by (simp add: algebra_simps)
qed

lemma ord_chr_letter: "0 \<le> d \<Longrightarrow> d < 26 \<Longrightarrow> ord (chr (d + 65)) = d + 65"
  by (simp add: ord_def chr_def)

lemma chr_ord_letter: "chr (ord c - 65 + 65) = c"
  by (simp add: ord_def chr_def)

lemma letters_value_loop:
  "0 \<le> n \<Longrightarrow>
   letters_value 0 (index_to_column_loop n res) = n * 26 ^ length res + letters_value 0 res"
proof (induction n res rule: index_to_column_loop.induct)
  case (1 index result)
  show ?case
  proof (cases "index > 0")
    case False
    with "1.prems" have "index = 0" by simp
    then show ?thesis by (simp add: index_to_column_loop.simps)
  next
    case True
    define d where "d = (index - 1) mod 26"
    define q where "q = (index - 1) div 26"
    have d: "0 \<le> d" "d < 26" by (simp_all add: d_def)
    have q: "0 \<le> q" using True by (simp add: q_def)
    have idx: "index = q * 26 + d + 1" by (simp add: d_def q_def)
    have unfold: "index_to_column_loop index result = index_to_column_loop q (chr (d + 65) # result)"
      using True by (subst index_to_column_loop.simps) (simp add: d_def q_def ord_def)
    have "letters_value 0 (index_to_column_loop index result)
          = letters_value 0 (index_to_column_loop q (chr (d + 65) # result))"
      by (simp only: unfold)
    also have "\<dots> = q * 26 ^ length (chr (d + 65) # result) + letters_value 0 (chr (d + 65) # result)"
      using "1.IH" [OF True] q by (simp add: d_def q_def ord_def)
    also have "letters_value 0 (chr (d + 65) # result)
          = (d + 1) * 26 ^ length result + letters_value 0 result"
      using letters_value_acc [of "1 + d" result] d
      by (simp add: letters_value_Cons ord_chr_letter add.commute)
    finally show ?thesis
      by (simp add: idx algebra_simps)
  qed
qed

lemma column_to_index_index_to_column:
  "0 \<le> i \<Longrightarrow> column_to_index (index_to_column i) = i"
  using letters_value_loop [of "i + 1" "[]"]
  by (simp add: column_to_index_letters_value index_to_column_def letters_value_Nil)

lemma letters_value_nonneg:
  "list_all char_isupper s \<Longrightarrow> 0 \<le> acc \<Longrightarrow> 0 \<le> letters_value acc s"
  by (induction s arbitrary: acc) (auto simp: letters_value_Nil letters_value_Cons char_isupper_def)

lemma loop_letters_value:
  "list_all char_isupper s \<Longrightarrow> index_to_column_loop (letters_value 0 s) res = s @ res"
proof (induction s arbitrary: res rule: rev_induct)
  case Nil
  show ?case by (simp add: letters_value_Nil index_to_column_loop.simps)
next
  case (snoc c s)
  have up: "list_all char_isupper s" "char_isupper c" using snoc.prems by simp_all
  define d where "d = ord c - 65"
  have d: "0 \<le> d" "d < 26" using up(2) by (simp_all add: d_def char_isupper_def)
  define v where "v = letters_value 0 s"
  have v: "0 \<le> v" using letters_value_nonneg [OF up(1), of 0] by (simp add: v_def)
  have val: "letters_value 0 (s @ [c]) = v * 26 + d + 1"
    by (simp add: letters_value_snoc v_def d_def)
  have pos: "v * 26 + d + 1 > 0" using v d by simp
  have dm: "(v * 26 + d) mod 26 = d" using d by simp
  have dv: "(v * 26 + d) div 26 = v" using d by simp
  have c: "chr (d + 65) = c" unfolding d_def by (rule chr_ord_letter)
  have "index_to_column_loop (v * 26 + d + 1) res = index_to_column_loop v (c # res)"
    using pos dm dv c by (subst index_to_column_loop.simps) (simp add: ord_def)
  then show ?case
    using snoc.IH [OF up(1), of "c # res"] by (simp add: val v_def)
qed

lemma index_to_column_column_to_index:
  "list_all char_isupper c \<Longrightarrow> index_to_column (column_to_index c) = c"
  using loop_letters_value [of c "[]"]
  by (simp add: column_to_index_letters_value index_to_column_def)

text \<open>
  Claim C5. For every string \<open>c\<close> of uppercase letters A to Z, converting \<open>c\<close> to its
  0-based index and back gives \<open>c\<close>; for every index \<open>i \<ge> 0\<close>, converting \<open>i\<close> to
  letters and back gives \<open>i\<close>; index 26 and the two-letter column \<open>AA\<close> correspond.
\<close>

theorem column_index_round_trip:
  "(list_all char_isupper c \<longrightarrow> index_to_column (column_to_index c) = c) \<and>
   (0 \<le> i \<longrightarrow> column_to_index (index_to_column i) = i) \<and>
   index_to_column 26 = ''AA'' \<and> column_to_index ''AA'' = 26"
proof -
  have "index_to_column 26 = ''AA''"
    by code_simp
  moreover have "column_to_index ''AA'' = 26"
    by (simp add: column_to_index_def ord_def)
  ultimately show ?thesis
    using index_to_column_column_to_index [of c] column_to_index_index_to_column [of i]
    by simp
qed

theorem column_index_round_trip_witness:
  "list_all char_isupper ''AZ'' \<and> index_to_column (column_to_index ''AZ'') = ''AZ'' \<and>
   (0::int) \<le> 701 \<and> column_to_index (index_to_column 701) = 701"
  using column_index_round_trip [of "''AZ''" 701]
  by (simp add: char_isupper_def ord_def)

section \<open>Coordinate: parsing\<close>

text \<open>
  Claim C2, as stated, at its first input: \<open>A1:A1\<close> does not parse to a whole column. Both
  sides contain a digit, so neither is alphabetic, and the text parses as the range from
  A1 to A1.
\<close>

theorem parse_A1_A1_is_range:
  "from_string ''A1:A1'' =
     Inr \<lparr>column = ''A'', row = 1, end_column = ''A'', end_row = 1, coord_type = ''range''\<rparr>"
  by code_simp

text \<open>
  Claim C2, amended. The whole-column form is \<open>A:A\<close> (equal letters on both sides, no row
  numbers): it parses to kind column with column \<open>A\<close>. \<open>A1:A1\<close> parses to the range from
  A1 to A1, \<open>1:1\<close> to kind row with row 1, and \<open>A1:B5\<close> to the range from A1 to B5.
\<close>

theorem parse_range_forms:
  "from_string ''A:A'' =
     Inr \<lparr>column = ''A'', row = 0, end_column = '''', end_row = 0, coord_type = ''column''\<rparr> \<and>
   from_string ''A1:A1'' =
     Inr \<lparr>column = ''A'', row = 1, end_column = ''A'', end_row = 1, coord_type = ''range''\<rparr> \<and>
   from_string ''1:1'' =
     Inr \<lparr>column = '''', row = 1, end_column = '''', end_row = 0, coord_type = ''row''\<rparr> \<and>
   from_string ''A1:B5'' =
     Inr \<lparr>column = ''A'', row = 1, end_column = ''B'', end_row = 5, coord_type = ''range''\<rparr>"
  by code_simp

section \<open>The match operator evaluator\<close>

lemma series_or_map:
  "series_or (series_map f s) (series_map g s) = series_map (\<lambda>x. f x \<or> g x) s"
  by (induction s) (auto simp: series_or_def series_map_def)

lemma series_any_map: "series_any (series_map f s) = list_ex (\<lambda>(l, x). f x) s"
  by (induction s) (auto simp: series_any_def series_map_def)

lemma series_map_cong:
  "(\<And>l x. (l, x) \<in> set s \<Longrightarrow> f x = g x) \<Longrightarrow> series_map f s = series_map g s"
  by (induction s) (auto simp: series_map_def)

text \<open>
  Claim C1. Under \<open>EQUALS\<close> a row is selected when its cell equals the comparison value
  directly, or when no cell of the column equals it directly and a coerced comparison
  holds: for a string value, the comparison with its integer reading or with its float
  reading, each when the conversion succeeds; for a number, the comparison of the cell's
  text with the number's text. In every other case the result is the direct mask. The
  column holding the integer 202 and the string \<open>x\<close>, compared with the string \<open>202\<close>,
  gives the mask true, false.
\<close>

theorem equals_operator_fallback:
  "apply_match_operator L col v EQUALS =
     series_map (\<lambda>x. cell_eq x v \<or>
        (\<not> list_ex (\<lambda>(l, y). cell_eq y v) col \<and>
         (case v of
            PStr s \<Rightarrow>
              (case py_int s of None \<Rightarrow> False | Some i \<Rightarrow> cell_eq x (PInt i)) \<or>
              (case float_of_str L s of None \<Rightarrow> False | Some f \<Rightarrow> cell_eq x (PFloat f))
          | PNone \<Rightarrow> False
          | PInt i \<Rightarrow> py_str L x = py_str L v
          | PFloat f \<Rightarrow> py_str L x = py_str L v
          | PBool b \<Rightarrow> py_str L x = py_str L v))) col \<and>
   apply_match_operator L (series_of [PInt 202, PStr ''x'']) (PStr ''202'') EQUALS
     = [(0, True), (1, False)]"
proof -
  let ?d = "\<lambda>x. cell_eq x v"
  let ?any = "list_ex (\<lambda>(l, y). cell_eq y v) col"
  have unfold: "apply_match_operator L col v EQUALS = equals_mask L col v"
    by (simp add: apply_match_operator_def match_operator_try_def)
  have gen: "equals_mask L col v =
     series_map (\<lambda>x. cell_eq x v \<or>
        (\<not> ?any \<and>
         (case v of
            PStr s \<Rightarrow>
              (case py_int s of None \<Rightarrow> False | Some i \<Rightarrow> cell_eq x (PInt i)) \<or>
              (case float_of_str L s of None \<Rightarrow> False | Some f \<Rightarrow> cell_eq x (PFloat f))
          | PNone \<Rightarrow> False
          | PInt i \<Rightarrow> py_str L x = py_str L v
          | PFloat f \<Rightarrow> py_str L x = py_str L v
          | PBool b \<Rightarrow> py_str L x = py_str L v))) col"
  proof (cases ?any)
    case True
    then show ?thesis
      by (simp add: equals_mask_def series_any_map)
  next
    case False
    then show ?thesis
      by (cases v)
         (auto simp: equals_mask_def series_any_map type_converted_matches_def series_or_map
               split: option.splits intro!: series_map_cong)
  qed
  have ex: "apply_match_operator L (series_of [PInt 202, PStr ''x'']) (PStr ''202'') EQUALS
     = [(0, True), (1, False)]"
  proof -
    have pi: "py_int ''202'' = Some 202"
      by code_simp
    show ?thesis
      by (simp add: apply_match_operator_def match_operator_try_def equals_mask_def series_of_def
            series_map_def series_any_def series_or_def type_converted_matches_def cell_eq_def
            isna_def pi float_eq_def
          split: option.splits)
  qed
  show ?thesis using unfold gen ex by simp
qed

text \<open>
  Claim C8, at a column whose only cell is the missing value \<open>NaN\<close>. The column is
  turned into text first, which makes the missing value the string \<open>nan\<close>; the row is then
  selected by \<open>STARTS_WITH\<close> and by \<open>ENDS_WITH\<close> with the value \<open>nan\<close>, and under
  \<open>CONTAINS\<close> it is selected exactly when the pattern matches the string \<open>nan\<close>.
\<close>

theorem string_operators_select_missing_cell:
  "apply_match_operator L (series_of [PFloat FNaN]) (PStr ''nan'') STARTS_WITH = [(0, True)] \<and>
   apply_match_operator L (series_of [PFloat FNaN]) (PStr ''nan'') ENDS_WITH = [(0, True)] \<and>
   apply_match_operator L (series_of [PFloat FNaN]) v CONTAINS
     = [(0, re_valid L (py_str L v) \<and> re_search L (py_str L v) ''nan'')]"
  by (simp add: apply_match_operator_def match_operator_try_def series_of_def series_map_def
        str_startswith_def str_endswith_def)

section \<open>The insert phase\<close>

lemma column_position_less: "column_position df j = Inr k \<Longrightarrow> k < length df"
  by (auto simp: column_position_def Let_def split: if_splits)

lemma column_position_update [simp]: "column_position (df[k := c]) j = column_position df j"
  by (simp add: column_position_def)

lemma iloc_get_Inr:
  "column_position df j = Inr k \<Longrightarrow> p < length (df ! k) \<Longrightarrow> iloc_get df p j = Inr (df ! k ! p)"
  by (simp add: iloc_get_def)

lemma iloc_set_Inr:
  "column_position df j = Inr k \<Longrightarrow> p < length (df ! k) \<Longrightarrow>
   iloc_set df p j v = Inr (df[k := (df ! k)[p := v]])"
  by (simp add: iloc_set_def)

lemma insert_loop_Cons:
  "vs \<noteq> [] \<Longrightarrow>
   insert_loop ow vs j i (p # ps) df cnt =
     (case iloc_get df p j of
        Inl e \<Rightarrow> (Inl e, df)
      | Inr old \<Rightarrow>
          if ow \<or> isna old
          then (case iloc_set df p j (pick_value vs i) of
                  Inl e \<Rightarrow> (Inl e, df)
                | Inr df' \<Rightarrow> insert_loop ow vs j (Suc i) ps df' (Suc cnt))
          else insert_loop ow vs j (Suc i) ps df cnt)"
  by (auto simp: pick_value_def insert_loop.simps split: sum.splits)

lemma insert_loop_result:
  assumes "column_position df j = Inr k" and "distinct ps"
    and "list_all (\<lambda>p. p < length (df ! k)) ps" and "vs \<noteq> []"
  shows "\<exists>c'. insert_loop ow vs j i ps df cnt
           = (Inr (cnt + length (filter (\<lambda>p. ow \<or> isna (df ! k ! p)) ps)), df[k := c'])
         \<and> length c' = length (df ! k)
         \<and> (\<forall>n<length ps. c' ! (ps ! n) =
               (if ow \<or> isna (df ! k ! (ps ! n)) then pick_value vs (i + n)
                else df ! k ! (ps ! n)))
         \<and> (\<forall>r. r \<notin> set ps \<longrightarrow> c' ! r = df ! k ! r)"
  using assms
proof (induction ps arbitrary: df i cnt)
  case Nil
  have "k < length df" using Nil.prems(1) by (rule column_position_less)
  then show ?case
    by (intro exI [of _ "df ! k"]) (simp add: insert_loop.simps)
next
  case (Cons p ps)
  have k: "k < length df" using Cons.prems(1) by (rule column_position_less)
  have p: "p < length (df ! k)" and ps: "list_all (\<lambda>q. q < length (df ! k)) ps"
    using Cons.prems(3) by simp_all
  have dist: "p \<notin> set ps" "distinct ps" using Cons.prems(2) by simp_all
  show ?case
  proof (cases "ow \<or> isna (df ! k ! p)")
    case False
    have step: "insert_loop ow vs j i (p # ps) df cnt = insert_loop ow vs j (Suc i) ps df cnt"
      using False iloc_get_Inr [OF Cons.prems(1) p] Cons.prems(4)
      by (simp add: insert_loop_Cons)
    obtain c' where c':
      "insert_loop ow vs j (Suc i) ps df cnt
         = (Inr (cnt + length (filter (\<lambda>p. ow \<or> isna (df ! k ! p)) ps)), df[k := c'])"
      "length c' = length (df ! k)"
      "\<forall>n<length ps. c' ! (ps ! n) =
          (if ow \<or> isna (df ! k ! (ps ! n)) then pick_value vs (Suc i + n) else df ! k ! (ps ! n))"
      "\<forall>r. r \<notin> set ps \<longrightarrow> c' ! r = df ! k ! r"
      using Cons.IH [OF Cons.prems(1) dist(2) ps Cons.prems(4), of "Suc i" cnt] by blast
    have nth: "\<forall>n<length (p # ps). c' ! ((p # ps) ! n) =
          (if ow \<or> isna (df ! k ! ((p # ps) ! n)) then pick_value vs (i + n)
           else df ! k ! ((p # ps) ! n))"
    proof (intro allI impI)
      fix n assume n: "n < length (p # ps)"
      show "c' ! ((p # ps) ! n) =
          (if ow \<or> isna (df ! k ! ((p # ps) ! n)) then pick_value vs (i + n)
           else df ! k ! ((p # ps) ! n))"
      proof (cases n)
        case 0
        then show ?thesis using c'(4) dist(1) False by simp
      next
        case (Suc m)
        then show ?thesis using c'(3) n by simp
      qed
    qed
    show ?thesis
      using step c'(1,2,4) nth False
      by (intro exI [of _ c']) simp
  next
    case True
    define v where "v = pick_value vs i"
    define df1 where "df1 = df[k := (df ! k)[p := v]]"
    have step: "insert_loop ow vs j i (p # ps) df cnt = insert_loop ow vs j (Suc i) ps df1 (Suc cnt)"
      using True iloc_get_Inr [OF Cons.prems(1) p] iloc_set_Inr [OF Cons.prems(1) p, of v]
        Cons.prems(4)
      by (simp add: insert_loop_Cons v_def df1_def)
    have cp1: "column_position df1 j = Inr k"
      using Cons.prems(1) by (simp add: df1_def)
    have col1: "df1 ! k = (df ! k)[p := v]"
      using k by (simp add: df1_def)
    have ps1: "list_all (\<lambda>q. q < length (df1 ! k)) ps"
      using ps by (simp add: col1)
    have same: "\<And>q. q \<noteq> p \<Longrightarrow> df1 ! k ! q = df ! k ! q"
      by (simp add: col1)
    obtain c' where c':
      "insert_loop ow vs j (Suc i) ps df1 (Suc cnt)
         = (Inr (Suc cnt + length (filter (\<lambda>p. ow \<or> isna (df1 ! k ! p)) ps)), df1[k := c'])"
      "length c' = length (df1 ! k)"
      "\<forall>n<length ps. c' ! (ps ! n) =
          (if ow \<or> isna (df1 ! k ! (ps ! n)) then pick_value vs (Suc i + n) else df1 ! k ! (ps ! n))"
      "\<forall>r. r \<notin> set ps \<longrightarrow> c' ! r = df1 ! k ! r"
      using Cons.IH [OF cp1 dist(2) ps1 Cons.prems(4), of "Suc i" "Suc cnt"] by blast
    have filt: "filter (\<lambda>q. ow \<or> isna (df1 ! k ! q)) ps = filter (\<lambda>q. ow \<or> isna (df ! k ! q)) ps"
    proof (rule filter_cong [OF refl])
      fix q assume "q \<in> set ps"
      then have "q \<noteq> p" using dist(1) by auto
      then show "(ow \<or> isna (df1 ! k ! q)) = (ow \<or> isna (df ! k ! q))"
        by (simp add: same)
    qed
    have cp: "c' ! p = v"
      using c'(4) dist(1) p by (simp add: col1)
    have nth: "\<forall>n<length (p # ps). c' ! ((p # ps) ! n) =
          (if ow \<or> isna (df ! k ! ((p # ps) ! n)) then pick_value vs (i + n)
           else df ! k ! ((p # ps) ! n))"
    proof (intro allI impI)
      fix n assume n: "n < length (p # ps)"
      show "c' ! ((p # ps) ! n) =
          (if ow \<or> isna (df ! k ! ((p # ps) ! n)) then pick_value vs (i + n)
           else df ! k ! ((p # ps) ! n))"
      proof (cases n)
        case 0
        then show ?thesis using cp True by (simp add: v_def)
      next
        case (Suc m)
        then have m: "m < length ps" using n by simp
        then have "ps ! m \<noteq> p" using dist(1) by (metis nth_mem)
        then show ?thesis using c'(3) m Suc same by simp
      qed
    qed
    have rest: "\<forall>r. r \<notin> set (p # ps) \<longrightarrow> c' ! r = df ! k ! r"
      using c'(4) same by simp
    have upd: "df1[k := c'] = df[k := c']"
      by (simp add: df1_def)
    have len: "length c' = length (df ! k)"
      using c'(2) by (simp add: col1)
    show ?thesis
      using step c'(1) filt upd len nth rest True
      by (intro exI [of _ c']) simp
  qed
qed

lemma insert_values_cells:
  assumes td: "target_data (target_file m) = Some a"
    and idx: "get_column_index (target_insert_coordinate m) (objs h a) = Inr j"
    and cp: "column_position (objs h a) j = Inr k"
    and dist: "distinct ps"
    and rows: "list_all (\<lambda>p. p < length (objs h a ! k)) ps"
    and vs: "vs \<noteq> []"
  shows "\<exists>c'. insert_values m target_data vs ps h
           = (Inr (target_data(target_file m \<mapsto> next_free h)),
              \<lparr>objs = (objs h)(next_free h := (objs h a)[k := c']),
               next_free = Suc (next_free h)\<rparr>)
         \<and> length c' = length (objs h a ! k)
         \<and> (\<forall>n<length ps. c' ! (ps ! n) =
               (if overwrite_existing m \<or> isna (objs h a ! k ! (ps ! n)) then pick_value vs n
                else objs h a ! k ! (ps ! n)))
         \<and> (\<forall>r. r \<notin> set ps \<longrightarrow> c' ! r = objs h a ! k ! r)"
proof -
  define df where "df = objs h a"
  have idx': "get_column_index (target_insert_coordinate m) df = Inr j"
    using idx by (simp add: df_def)
  have cp': "column_position df j = Inr k" using cp by (simp add: df_def)
  have rows': "list_all (\<lambda>p. p < length (df ! k)) ps" using rows by (simp add: df_def)
  have bound: "\<not> j \<ge> int (length df)"
    using cp' by (auto simp: column_position_def Let_def split: if_splits)
  have col: "iloc_column df j = Inr (series_of (df ! k))"
    using cp' by (simp add: iloc_column_def)
  obtain c' where c':
    "insert_loop (overwrite_existing m) vs j 0 ps df 0
       = (Inr (0 + length (filter (\<lambda>p. overwrite_existing m \<or> isna (df ! k ! p)) ps)), df[k := c'])"
    "length c' = length (df ! k)"
    "\<forall>n<length ps. c' ! (ps ! n) =
        (if overwrite_existing m \<or> isna (df ! k ! (ps ! n)) then pick_value vs (0 + n)
         else df ! k ! (ps ! n))"
    "\<forall>r. r \<notin> set ps \<longrightarrow> c' ! r = df ! k ! r"
    using insert_loop_result [OF cp' dist rows' vs, of "overwrite_existing m" 0 0] by blast
  have "insert_values m target_data vs ps h
           = (Inr (target_data(target_file m \<mapsto> next_free h)),
              \<lparr>objs = (objs h)(next_free h := df[k := c']),
               next_free = Suc (next_free h)\<rparr>)"
    using td idx' bound col c'(1)
    by (simp add: insert_values_def frame_copy_def df_def [symmetric])
  then show ?thesis
    using c'(2,3,4) unfolding df_def by (intro exI [of _ c']) simp
qed


text \<open>
  Claim C3. When the insert phase runs with at least one source value on distinct row
  positions inside the table, the returned table set holds a copy of the target frame in
  which, for every target position, the cell of the insert column holds the picked source
  value if \<^verbatim>\<open>overwrite_existing\<close> is set or the cell was null (the missing value
  \<^verbatim>\<open>None\<close> or \<^verbatim>\<open>NaN\<close> of an empty cell, as \<^verbatim>\<open>pd.isna\<close> tests it), and holds its prior
  value otherwise. With the insert column null, 99, null, the values 20 and 30, the
  positions 1 and 2 and no overwriting, position 1 keeps 99 and position 2 receives 30.
\<close>

theorem insert_overwrite_policy:
  assumes "target_data (target_file m) = Some a"
    and "get_column_index (target_insert_coordinate m) (objs h a) = Inr j"
    and "column_position (objs h a) j = Inr k"
    and "distinct ps"
    and "list_all (\<lambda>p. p < length (objs h a ! k)) ps"
    and "vs \<noteq> []"
    and "n < length ps"
  shows "fst (insert_values m target_data vs ps h)
           = Inr (target_data(target_file m \<mapsto> next_free h)) \<and>
         objs (snd (insert_values m target_data vs ps h)) (next_free h) ! k ! (ps ! n) =
           (if overwrite_existing m \<or> isna (objs h a ! k ! (ps ! n)) then pick_value vs n
            else objs h a ! k ! (ps ! n))"
proof -
  obtain c' where c':
    "insert_values m target_data vs ps h
           = (Inr (target_data(target_file m \<mapsto> next_free h)),
              \<lparr>objs = (objs h)(next_free h := (objs h a)[k := c']),
               next_free = Suc (next_free h)\<rparr>)"
    "\<forall>n<length ps. c' ! (ps ! n) =
               (if overwrite_existing m \<or> isna (objs h a ! k ! (ps ! n)) then pick_value vs n
                else objs h a ! k ! (ps ! n))"
    using insert_values_cells [where target_data = target_data, OF assms(1-6)] by blast
  have "k < length (objs h a)" using assms(3) by (rule column_position_less)
  then show ?thesis using c' assms(7) by simp
qed

lemma example_insert_facts:
  "example_targets (target_file example_mapping) = Some 1"
  "get_column_index (target_insert_coordinate example_mapping) (objs example_store 1) = Inr 3"
  "column_position (objs example_store 1) 3 = Inr 3"
  by (simp_all add: example_targets_def example_mapping_def example_store_def example_target_def
        get_column_index_def column_coordinate_def coord_default_def column_to_index_def ord_def
        column_position_def)

theorem insert_overwrite_policy_witness:
  "objs (snd (insert_values example_mapping example_targets [PInt 20, PInt 30] [1, 2]
               example_store)) 2 ! 3 ! 1 = PInt 99 \<and>
   objs (snd (insert_values example_mapping example_targets [PInt 20, PInt 30] [1, 2]
               example_store)) 2 ! 3 ! 2 = PInt 30"
proof -
  have d: "distinct [1, 2 :: nat]" by simp
  have r: "list_all (\<lambda>p. p < length (objs example_store 1 ! 3)) [1, 2]"
    by (simp add: example_store_def example_target_def)
  have v: "[PInt 20, PInt 30] \<noteq> []" by simp
  note t = insert_overwrite_policy [where target_data = example_targets,
      OF example_insert_facts(1,2,3) d r v]
  show ?thesis
    using t [of 0] t [of 1]
    by (simp add: example_store_def example_target_def example_mapping_def isna_def
          pick_value_def)
qed

text \<open>
  Claim C4. Under the same conditions, a target position that is written to receives the
  source value of its own index when there is one and the last source value otherwise:
  every position beyond the source values repeats the last one. With the single value 20
  and two target positions, both receive 20.
\<close>

theorem insert_shortfall_repeats_last:
  assumes "target_data (target_file m) = Some a"
    and "get_column_index (target_insert_coordinate m) (objs h a) = Inr j"
    and "column_position (objs h a) j = Inr k"
    and "distinct ps"
    and "list_all (\<lambda>p. p < length (objs h a ! k)) ps"
    and "vs \<noteq> []"
    and "n < length ps"
    and "overwrite_existing m \<or> isna (objs h a ! k ! (ps ! n))"
  shows "objs (snd (insert_values m target_data vs ps h)) (next_free h) ! k ! (ps ! n) =
           (if n < length vs then vs ! n else last vs)"
proof -
  obtain c' where c':
    "insert_values m target_data vs ps h
           = (Inr (target_data(target_file m \<mapsto> next_free h)),
              \<lparr>objs = (objs h)(next_free h := (objs h a)[k := c']),
               next_free = Suc (next_free h)\<rparr>)"
    "\<forall>n<length ps. c' ! (ps ! n) =
               (if overwrite_existing m \<or> isna (objs h a ! k ! (ps ! n)) then pick_value vs n
                else objs h a ! k ! (ps ! n))"
    using insert_values_cells [where target_data = target_data, OF assms(1-6)] by blast
  have "k < length (objs h a)" using assms(3) by (rule column_position_less)
  then show ?thesis using c' assms(7,8) by (simp add: pick_value_def)
qed

theorem insert_shortfall_repeats_last_witness:
  "objs (snd (insert_values (example_mapping\<lparr>overwrite_existing := True\<rparr>) example_targets
               [PInt 20] [1, 2] example_store)) 2 ! 3 ! 1 = PInt 20 \<and>
   objs (snd (insert_values (example_mapping\<lparr>overwrite_existing := True\<rparr>) example_targets
               [PInt 20] [1, 2] example_store)) 2 ! 3 ! 2 = PInt 20"
proof -
  let ?m = "example_mapping\<lparr>overwrite_existing := True\<rparr>"
  have f1: "example_targets (target_file ?m) = Some 1"
    using example_insert_facts(1) by simp
  have f2: "get_column_index (target_insert_coordinate ?m) (objs example_store 1) = Inr 3"
    using example_insert_facts(2) by simp
  have d: "distinct [1, 2 :: nat]" by simp
  have r: "list_all (\<lambda>p. p < length (objs example_store 1 ! 3)) [1, 2]"
    by (simp add: example_store_def example_target_def)
  have v: "[PInt 20] \<noteq> []" by simp
  have ow: "\<And>n. overwrite_existing ?m \<or> isna (objs example_store 1 ! 3 ! ([1, 2] ! n))"
    by simp
  note t = insert_shortfall_repeats_last [where target_data = example_targets,
      OF f1 f2 example_insert_facts(3) d r v _ ow]
  show ?thesis
    using t [of 0] t [of 1]
    by (simp add: example_store_def)
qed

section \<open>Running one rule and a list of rules\<close>

lemma extract_source_values_raises:
  "\<exists>e. extract_source_values L m source_data h = Inl e"
  by (auto simp: extract_source_values_def source_match_row_range_def Let_def
           split: option.splits sum.splits)

lemma example_extract_raises:
  "extract_source_values L (example_mapping\<lparr>source_match_value := v\<rparr>)
     example_sources example_store = Inl AttributeError"
  by (simp add: extract_source_values_def source_match_row_range_def example_mapping_def
        example_sources_def example_store_def example_source_def get_column_index_def
        column_coordinate_def coord_default_def column_to_index_def ord_def iloc_column_def
        column_position_def)

text \<open>
  Claim C6, at the example rule with a source match value that no row of the source table
  holds. The extract phase resolves and reads its two columns and then reads the row
  range of the rule, an attribute that the rule does not have: \<^verbatim>\<open>execute_mapping\<close>
  raises \<^verbatim>\<open>AttributeError\<close> and leaves the store as it was, where the claim has it return
  the target tables without an exception. It is so for every rule and all tables:
  \<^verbatim>\<open>execute_mapping\<close> never returns a table set.
\<close>

theorem execute_mapping_raises_on_no_match:
  "execute_mapping L (example_mapping\<lparr>source_match_value := PStr ''204 main''\<rparr>)
     example_sources example_targets example_store = (Inl AttributeError, example_store) \<and>
   (\<exists>e. execute_mapping L m source_data target_data h = (Inl e, h))"
proof -
  obtain e where "extract_source_values L m source_data h = Inl e"
    using extract_source_values_raises by blast
  then have "execute_mapping L m source_data target_data h = (Inl e, h)"
    by (simp add: execute_mapping_def)
  then show ?thesis
    by (simp add: execute_mapping_def example_extract_raises)
qed

lemma insert_values_store:
  "insert_values m target_data vs ps h = (r, h') \<Longrightarrow>
   next_free h \<le> next_free h' \<and> (\<forall>a. a < next_free h \<longrightarrow> objs h' a = objs h a)"
  by (auto simp: insert_values_def frame_copy_def Let_def
           split: option.splits sum.splits if_splits prod.splits)

lemma execute_mapping_store:
  "execute_mapping L m source_data target_data h = (r, h') \<Longrightarrow>
   next_free h \<le> next_free h' \<and> (\<forall>a. a < next_free h \<longrightarrow> objs h' a = objs h a)"
  unfolding execute_mapping_def
  by (auto split: sum.splits if_splits dest: insert_values_store)

lemma example_mapping_raises:
  "fst (execute_mapping L example_mapping example_sources example_targets example_store)
     = Inl AttributeError"
  using example_extract_raises [of L "PStr ''202 main''"]
  by (simp add: execute_mapping_def example_mapping_def)

text \<open>
  Claim C7. \<^verbatim>\<open>execute_multiple_mappings\<close> returns a table set for every list of rules: no
  exception leaves it. It takes the rules in list order. When the first rule raises, the
  remaining rules run with the table set the failing rule was given; when it succeeds,
  they run with the table set it returned. Whatever the rule did, every frame that
  existed before it holds what it held: a failing rule leaves the running target tables
  unchanged.
\<close>

theorem failing_rule_is_skipped:
  "(fst (execute_mapping L m source_data current h) = Inl e \<longrightarrow>
      execute_multiple_mappings L (m # ms) source_data current h
        = execute_multiple_mappings L ms source_data current
            (snd (execute_mapping L m source_data current h))) \<and>
   (fst (execute_mapping L m source_data current h) = Inr updated \<longrightarrow>
      execute_multiple_mappings L (m # ms) source_data current h
        = execute_multiple_mappings L ms source_data updated
            (snd (execute_mapping L m source_data current h))) \<and>
   (\<forall>a. a < next_free h \<longrightarrow>
      objs (snd (execute_mapping L m source_data current h)) a = objs h a)"
proof -
  obtain r h' where rh: "execute_mapping L m source_data current h = (r, h')"
    by (cases "execute_mapping L m source_data current h")
  show ?thesis
    using execute_mapping_store [OF rh] rh by (cases r) auto
qed

theorem failing_rule_is_skipped_witness:
  "\<forall>L. fst (execute_multiple_mappings L [example_mapping] example_sources example_targets
              example_store) = example_targets \<and>
        objs (snd (execute_multiple_mappings L [example_mapping] example_sources
                    example_targets example_store)) 1 = example_target"
proof (intro allI)
  fix L
  show "fst (execute_multiple_mappings L [example_mapping] example_sources example_targets
              example_store) = example_targets \<and>
        objs (snd (execute_multiple_mappings L [example_mapping] example_sources
                    example_targets example_store)) 1 = example_target"
    using failing_rule_is_skipped
            [where L = L and m = example_mapping and source_data = example_sources
               and current = example_targets and h = example_store and e = AttributeError
               and ms = "[]"]
          example_mapping_raises [of L]
    by (simp add: example_store_def)
qed

section \<open>Negative column indices\<close>

lemma get_column_index_empty:
  "column c = '''' \<Longrightarrow> coord_type c = ''column'' \<or> coord_type c = ''single'' \<Longrightarrow>
   get_column_index c df = Inr (- 1)"
  by (auto simp: get_column_index_def column_to_index_def)

lemma get_column_index_last:
  "df \<noteq> [] \<Longrightarrow> get_column_index (last_column_coordinate df) df' = Inr (int (length df) - 1)"
  by (simp add: get_column_index_def last_column_coordinate_def column_coordinate_def
        coord_default_def column_to_index_index_to_column)

lemma column_position_last:
  "df \<noteq> [] \<Longrightarrow> column_position df (- 1) = Inr (length df - 1)"
  "df \<noteq> [] \<Longrightarrow> column_position df (int (length df) - 1) = Inr (length df - 1)"
  by (cases df; simp add: column_position_def Let_def)+

lemma iloc_column_last:
  "df \<noteq> [] \<Longrightarrow> iloc_column df (- 1) = Inr (series_of (last df))"
  "df \<noteq> [] \<Longrightarrow> iloc_column df (int (length df) - 1) = Inr (series_of (last df))"
  by (simp_all add: iloc_column_def column_position_last last_conv_nth)

lemma iloc_set_length: "iloc_set df p j v = Inr df' \<Longrightarrow> length df' = length df"
  by (auto simp: iloc_set_def split: sum.splits if_splits)

lemma insert_loop_last_column:
  "df \<noteq> [] \<Longrightarrow> length df = n \<Longrightarrow>
   insert_loop ow vs (- 1) i ps df cnt = insert_loop ow vs (int n - 1) i ps df cnt"
proof (induction ps arbitrary: df i cnt)
  case Nil
  show ?case by (simp add: insert_loop.simps)
next
  case (Cons p ps)
  have g: "iloc_get df p (- 1) = iloc_get df p (int n - 1)"
    using Cons.prems column_position_last [of df] by (simp add: iloc_get_def)
  have s: "\<And>v. iloc_set df p (- 1) v = iloc_set df p (int n - 1) v"
    using Cons.prems column_position_last [of df] by (simp add: iloc_set_def)
  have ih: "\<And>df' i cnt. length df' = n \<Longrightarrow>
      insert_loop ow vs (- 1) i ps df' cnt = insert_loop ow vs (int n - 1) i ps df' cnt"
    using Cons.IH Cons.prems by (metis length_0_conv)
  have ih': "\<And>df' v i cnt. iloc_set df p (int n - 1) v = Inr df' \<Longrightarrow>
      insert_loop ow vs (- 1) i ps df' cnt = insert_loop ow vs (int n - 1) i ps df' cnt"
    using ih iloc_set_length Cons.prems(2) by blast
  have unfold: "\<And>j. insert_loop ow vs j i (p # ps) df cnt =
     (if vs = [] then insert_loop ow vs j (Suc i) ps df cnt
      else (case iloc_get df p j of
              Inl e \<Rightarrow> (Inl e, df)
            | Inr old \<Rightarrow>
                if ow \<or> isna old
                then (case iloc_set df p j (pick_value vs i) of
                        Inl e \<Rightarrow> (Inl e, df)
                      | Inr df' \<Rightarrow> insert_loop ow vs j (Suc i) ps df' (Suc cnt))
                else insert_loop ow vs j (Suc i) ps df cnt))"
    by (auto simp: insert_loop_Cons) (simp add: insert_loop.simps)
  show ?case
    unfolding unfold g s
    using ih [OF Cons.prems(2)] ih'
    by (auto split: sum.splits)
qed

lemma example_last_target_column:
  "last_column_coordinate example_target = column_coordinate ''D''"
proof -
  have "index_to_column 3 = ''D''" by code_simp
  then show ?thesis
    by (simp add: last_column_coordinate_def example_target_def)
qed

text \<open>
  Claim C10. The bounds checks of the engine compare a column index with the column count
  only from above. A coordinate of kind column or single with an empty column string
  resolves to index -1. On tables with at least one column, \<^verbatim>\<open>validate_mapping\<close>
  reports nothing for it, and each phase (the match and value columns of the extraction,
  the match column of the location, the insert column of the insertion) does with it
  exactly what it does with the coordinate that names the table's last column: it
  addresses the last column and raises no range error.
\<close>

theorem empty_column_addresses_last_column:
  assumes c: "column c = ''''" "coord_type c = ''column'' \<or> coord_type c = ''single''"
    and src: "source_data (source_file m) = Some a" "objs h a \<noteq> []"
    and tgt: "target_data (target_file m) = Some b" "objs h b \<noteq> []"
  shows "get_column_index c (objs h a) = Inr (- 1) \<and>
         iloc_column (objs h a) (- 1) = Inr (series_of (last (objs h a))) \<and>
         validate_mapping
           (m\<lparr>source_match_coordinate := c, source_value_coordinate := c,
              target_match_coordinate := c, target_insert_coordinate := c\<rparr>)
           source_data target_data h = [] \<and>
         extract_source_values L (m\<lparr>source_match_coordinate := c\<rparr>) source_data h
           = extract_source_values L
               (m\<lparr>source_match_coordinate := last_column_coordinate (objs h a)\<rparr>) source_data h \<and>
         extract_source_values L (m\<lparr>source_value_coordinate := c\<rparr>) source_data h
           = extract_source_values L
               (m\<lparr>source_value_coordinate := last_column_coordinate (objs h a)\<rparr>) source_data h \<and>
         find_target_positions L (m\<lparr>target_match_coordinate := c\<rparr>) target_data h
           = find_target_positions L
               (m\<lparr>target_match_coordinate := last_column_coordinate (objs h b)\<rparr>) target_data h \<and>
         insert_values (m\<lparr>target_insert_coordinate := c\<rparr>) target_data vs ps h
           = insert_values
               (m\<lparr>target_insert_coordinate := last_column_coordinate (objs h b)\<rparr>)
               target_data vs ps h"
proof -
  note gi = get_column_index_empty [OF c]
  have 1: "get_column_index c (objs h a) = Inr (- 1)" by (rule gi)
  have 2: "iloc_column (objs h a) (- 1) = Inr (series_of (last (objs h a)))"
    using src(2) by (rule iloc_column_last)
  have 3: "validate_mapping
           (m\<lparr>source_match_coordinate := c, source_value_coordinate := c,
              target_match_coordinate := c, target_insert_coordinate := c\<rparr>)
           source_data target_data h = []"
    using src(1) tgt(1) by (simp add: validate_mapping_def gi)
  have 4: "extract_source_values L (m\<lparr>source_match_coordinate := c\<rparr>) source_data h
           = extract_source_values L
               (m\<lparr>source_match_coordinate := last_column_coordinate (objs h a)\<rparr>) source_data h"
    using src
    by (auto simp: extract_source_values_def source_match_row_range_def Let_def gi
          get_column_index_last iloc_column_last split: sum.splits)
  have 5: "extract_source_values L (m\<lparr>source_value_coordinate := c\<rparr>) source_data h
           = extract_source_values L
               (m\<lparr>source_value_coordinate := last_column_coordinate (objs h a)\<rparr>) source_data h"
    using src
    by (auto simp: extract_source_values_def source_match_row_range_def Let_def gi
          get_column_index_last iloc_column_last split: sum.splits)
  have 6: "find_target_positions L (m\<lparr>target_match_coordinate := c\<rparr>) target_data h
           = find_target_positions L
               (m\<lparr>target_match_coordinate := last_column_coordinate (objs h b)\<rparr>) target_data h"
    using tgt
    by (auto simp: find_target_positions_def target_match_row_range_def Let_def gi
          get_column_index_last iloc_column_last split: sum.splits)
  have 7: "insert_values (m\<lparr>target_insert_coordinate := c\<rparr>) target_data vs ps h
           = insert_values
               (m\<lparr>target_insert_coordinate := last_column_coordinate (objs h b)\<rparr>)
               target_data vs ps h"
    using tgt insert_loop_last_column [OF tgt(2) refl]
    by (auto simp: insert_values_def frame_copy_def Let_def gi get_column_index_last
          iloc_column_last split: sum.splits prod.splits)
  show ?thesis
    using 1 2 3 4 5 6 7 by blast
qed

theorem empty_column_addresses_last_column_witness:
  "validate_mapping
     (example_mapping\<lparr>source_match_coordinate := coord_default,
        source_value_coordinate := coord_default, target_match_coordinate := coord_default,
        target_insert_coordinate := coord_default\<rparr>)
     example_sources example_targets example_store = [] \<and>
   insert_values (example_mapping\<lparr>target_insert_coordinate := coord_default\<rparr>)
     example_targets [PInt 20, PInt 30] [1, 2] example_store
     = insert_values example_mapping example_targets [PInt 20, PInt 30] [1, 2] example_store"
proof -
  have c: "column coord_default = []"
    "coord_type coord_default = ''column'' \<or> coord_type coord_default = ''single''"
    by (simp_all add: coord_default_def)
  have src: "example_sources (source_file example_mapping) = Some 0" "objs example_store 0 \<noteq> []"
    by (simp_all add: example_sources_def example_mapping_def example_store_def example_source_def)
  have tgt: "example_targets (target_file example_mapping) = Some 1" "objs example_store 1 \<noteq> []"
    by (simp_all add: example_targets_def example_mapping_def example_store_def example_target_def)
  note t = empty_column_addresses_last_column
             [where source_data = example_sources and target_data = example_targets
                and m = example_mapping and h = example_store, OF c src tgt]
  have same: "example_mapping\<lparr>target_insert_coordinate := column_coordinate ''D''\<rparr>
                = example_mapping"
    by (simp add: example_mapping_def)
  show ?thesis
    using t [where vs = "[PInt 20, PInt 30]" and ps = "[1, 2]" and L = undefined]
    by (simp add: example_store_def example_last_target_column same)
qed

section \<open>The standard loader's column labels\<close>

lemma ascii_uppercase_codes: "map ord ascii_uppercase = map (\<lambda>k. int k + 65) [0..<26]"
  by code_simp

lemma ascii_uppercase_nth: "0 \<le> i \<Longrightarrow> i < 26 \<Longrightarrow> ascii_uppercase ! nat i = chr (i + 65)"
proof -
  assume i: "0 \<le> i" "i < 26"
  have len: "length ascii_uppercase = 26"
    by (simp add: ascii_uppercase_def)
  have "ord (ascii_uppercase ! nat i) = map ord ascii_uppercase ! nat i"
    using i len by simp
  also have "\<dots> = int ([0..<26] ! nat i) + 65"
    unfolding ascii_uppercase_codes using i by (subst nth_map) simp_all
  also have "[0..<26] ! nat i = 0 + nat i"
    using i by (intro nth_upt) simp
  also have "int (0 + nat i) + 65 = i + 65"
    using i by simp
  finally have "chr (ord (ascii_uppercase ! nat i)) = chr (i + 65)"
    by simp
  then show ?thesis
    by (simp add: chr_def ord_def)
qed

lemma py_index_ascii_uppercase:
  "0 \<le> i \<Longrightarrow> i < 26 \<Longrightarrow> py_index ascii_uppercase i = Inr (chr (i + 65))"
  "26 \<le> i \<Longrightarrow> py_index ascii_uppercase i = Inl IndexError"
  by (simp_all add: py_index_def ascii_uppercase_nth) (simp_all add: ascii_uppercase_def)

lemma index_to_column_one_letter:
  "0 \<le> i \<Longrightarrow> i < 26 \<Longrightarrow> index_to_column i = [chr (i + 65)]"
  by (simp add: index_to_column_def index_to_column_loop.simps ord_def)

lemma index_to_column_two_letters:
  assumes "26 \<le> i" "i < 702"
  shows "index_to_column i = [chr ((i - 26) div 26 + 65), chr (i mod 26 + 65)]"
proof -
  define q where "q = i div 26"
  have q: "1 \<le> q" "q \<le> 26" using assms by (simp_all add: q_def)
  have q1: "(i - 26) div 26 = q - 1" by (simp add: q_def)
  have "index_to_column i = index_to_column_loop q [chr (i mod 26 + 65)]"
    using assms by (simp add: index_to_column_def index_to_column_loop.simps [of "i + 1"] ord_def q_def)
  also have "\<dots> = index_to_column_loop 0 [chr (q - 1 + 65), chr (i mod 26 + 65)]"
    using q by (simp add: index_to_column_loop.simps [of q] ord_def)
  finally show ?thesis
    by (simp add: index_to_column_loop.simps [of 0] q1)
qed

lemma standard_column_name_agrees:
  assumes "0 \<le> i" "i < 702"
  shows "standard_column_name i = Inr (index_to_column i)"
proof (cases "i < 26")
  case True
  then show ?thesis
    using assms by (simp add: standard_column_name_def py_index_ascii_uppercase index_to_column_one_letter)
next
  case False
  then have i: "26 \<le> i" by simp
  have a: "0 \<le> (i - 26) div 26" "(i - 26) div 26 < 26" using i assms by simp_all
  have b: "0 \<le> i mod 26" "i mod 26 < 26" by simp_all
  show ?thesis
    using False
    by (simp add: standard_column_name_def py_index_ascii_uppercase(1) [OF a]
          py_index_ascii_uppercase(1) [OF b] index_to_column_two_letters [OF i assms(2)])
qed

lemma standard_column_name_702: "702 \<le> i \<Longrightarrow> standard_column_name i = Inl IndexError"
  by (simp add: standard_column_name_def py_index_ascii_uppercase(2))

lemma collect_map_Inr:
  "(\<And>x. x \<in> set xs \<Longrightarrow> f x = Inr (g x)) \<Longrightarrow> collect (map f xs) = Inr (map g xs)"
  by (induction xs) simp_all

lemma collect_append_Inr:
  "collect rs = Inr xs \<Longrightarrow> collect (rs @ ss) = (case collect ss of Inl e \<Rightarrow> Inl e | Inr ys \<Rightarrow> Inr (xs @ ys))"
proof (induction rs arbitrary: xs)
  case Nil
  then show ?case by (simp split: sum.splits)
next
  case (Cons r rs)
  then show ?case
    by (cases r) (auto split: sum.splits)
qed

lemma standard_column_names_agree:
  assumes "n \<le> 702"
  shows "standard_column_names n = Inr (map (\<lambda>i. index_to_column (int i)) [0..<n])"
proof (cases "n \<le> 26")
  case True
  have "map (\<lambda>c. [c]) (take n ascii_uppercase) = map (\<lambda>i. index_to_column (int i)) [0..<n]"
  proof (rule nth_equalityI)
    show "length (map (\<lambda>c. [c]) (take n ascii_uppercase)) = length (map (\<lambda>i. index_to_column (int i)) [0..<n])"
      using True by (simp add: ascii_uppercase_def)
  next
    fix i assume "i < length (map (\<lambda>c. [c]) (take n ascii_uppercase))"
    then have i: "i < n" by simp
    then have i26: "int i < 26" using True by simp
    have "ascii_uppercase ! i = chr (int i + 65)"
      using ascii_uppercase_nth [of "int i"] i26 by simp
    then show "map (\<lambda>c. [c]) (take n ascii_uppercase) ! i = map (\<lambda>i. index_to_column (int i)) [0..<n] ! i"
      using i True i26 by (simp add: ascii_uppercase_def index_to_column_one_letter)
  qed
  then show ?thesis using True by (simp add: standard_column_names_def)
next
  case False
  have "collect (map (\<lambda>i. standard_column_name (int i)) [0..<n])
          = Inr (map (\<lambda>i. index_to_column (int i)) [0..<n])"
    using assms by (intro collect_map_Inr standard_column_name_agrees) auto
  then show ?thesis using False by (simp add: standard_column_names_def)
qed

lemma standard_column_names_fail:
  assumes "702 < n"
  shows "standard_column_names n = Inl IndexError"
proof -
  have split: "[0..<n] = [0..<702] @ 702 # [703..<n]"
    using assms by (metis upt_add_eq_append [of 0 702 "n - 702"] upt_conv_Cons
        le_add_diff_inverse less_imp_le_nat zero_le Suc_eq_plus1 numeral_plus_one
        semiring_norm(5) semiring_norm(8) eval_nat_numeral(3))
  have first: "collect (map (\<lambda>i. standard_column_name (int i)) [0..<702])
          = Inr (map (\<lambda>i. index_to_column (int i)) [0..<702])"
    by (intro collect_map_Inr standard_column_name_agrees) auto
  have "collect (map (\<lambda>i. standard_column_name (int i)) [0..<n]) = Inl IndexError"
    unfolding split map_append
    by (simp add: collect_append_Inr [OF first] standard_column_name_702)
  then show ?thesis using assms by (simp add: standard_column_names_def)
qed

lemma char_isupper_chr: "0 \<le> d \<Longrightarrow> d < 26 \<Longrightarrow> char_isupper (chr (d + 65))"
  by (simp add: char_isupper_def ord_chr_letter)

lemma upper_not_special:
  assumes "char_isupper a"
  shows "\<not> char_isspace a" "a \<noteq> CHR ''n''" "a \<noteq> CHR 0x0A" "a \<noteq> CHR 0x0D"
  using assms by (auto simp: char_isupper_def char_isspace_def ord_def)

lemma clean_column_name_one_letter:
  "char_isupper a \<Longrightarrow> clean_column_name k [a] = Name [a]"
  by (simp add: clean_column_name_def str_strip_def str_startswith_def upper_not_special)

lemma clean_column_name_two_letters:
  "char_isupper a \<Longrightarrow> char_isupper b \<Longrightarrow> clean_column_name k [a, b] = Name [a, b]"
  by (simp add: clean_column_name_def str_strip_def str_startswith_def upper_not_special)

lemma clean_column_name_index_to_column:
  assumes "0 \<le> i" "i < 702"
  shows "clean_column_name k (index_to_column i) = Name (index_to_column i)"
proof (cases "i < 26")
  case True
  then show ?thesis
    using assms by (simp add: index_to_column_one_letter clean_column_name_one_letter char_isupper_chr)
next
  case False
  then have i: "26 \<le> i" by simp
  have a: "0 \<le> (i - 26) div 26" "(i - 26) div 26 < 26" using i assms by simp_all
  have b: "0 \<le> i mod 26" "i mod 26 < 26" by simp_all
  show ?thesis
    unfolding index_to_column_two_letters [OF i assms(2)]
    by (intro clean_column_name_two_letters char_isupper_chr a b)
qed

lemma clean_column_names_map:
  "(\<And>k x. x \<in> set xs \<Longrightarrow> clean_column_name k x = Name x) \<Longrightarrow>
   map (\<lambda>(i, col). clean_column_name i col) (enumerate n xs) = map Name xs"
  by (induction xs arbitrary: n) simp_all

lemma load_standard_excel_columns_agree:
  assumes "n \<le> 702"
  shows "load_standard_excel_columns n = Some (map (\<lambda>i. Name (index_to_column (int i))) [0..<n])"
proof -
  have "clean_column_names (map (\<lambda>i. index_to_column (int i)) [0..<n])
          = map Name (map (\<lambda>i. index_to_column (int i)) [0..<n])"
    unfolding clean_column_names_def
    using assms by (intro clean_column_names_map) (auto intro!: clean_column_name_index_to_column)
  then show ?thesis
    by (simp add: load_standard_excel_columns_def standard_column_names_agree [OF assms] comp_def)
qed

lemma load_standard_excel_columns_fail:
  "702 < n \<Longrightarrow> load_standard_excel_columns n = None"
  by (simp add: load_standard_excel_columns_def standard_column_names_fail)

text \<open>
  Claim C9, at a sheet of 703 columns. Up to 702 columns the loader's labels are those of
  \<^verbatim>\<open>index_to_column\<close> (lemma \<open>load_standard_excel_columns_agree\<close>). At position 702
  the loader's loop indexes the alphabet at 26 and raises \<^verbatim>\<open>IndexError\<close>, so a sheet
  of 703 columns is not loaded at all, where \<^verbatim>\<open>index_to_column\<close> gives the label AAA.
\<close>

theorem standard_loader_fails_beyond_two_letters:
  "standard_column_name 702 = Inl IndexError \<and>
   load_standard_excel_columns 703 = None \<and>
   index_to_column 702 = ''AAA''"
proof -
  have "index_to_column 702 = ''AAA''"
    by code_simp
  then show ?thesis
    by (simp add: standard_column_name_702 load_standard_excel_columns_fail)
qed

end
